theory Spec2Isabelle
  imports Complex_Main "HOL-Library.Multiset"
begin

section \<open>Configuration (utils/test-helpers.ts)\<close>

record TestConfig =
  blogUrl :: string
  apiUrl :: string
  uploadUrl :: string
  cronUrl :: string

text \<open>
  \<^verbatim>\<open>process.env\<close> maps variable names to strings; an unset variable reads as
  \<^verbatim>\<open>undefined\<close>. The operator \<^verbatim>\<open>a || b\<close> yields \<^verbatim>\<open>b\<close> when \<^verbatim>\<open>a\<close> is falsy: for a
  string that is \<^verbatim>\<open>undefined\<close> or the empty string.
\<close>

type_synonym process_env = "string \<rightharpoonup> string"

definition or_default :: "string option \<Rightarrow> string \<Rightarrow> string" where
  "or_default v d = (case v of None \<Rightarrow> d | Some s \<Rightarrow> if s = [] then d else s)"

definition DEFAULT_CONFIG :: "process_env \<Rightarrow> TestConfig" where
  "DEFAULT_CONFIG env =
     \<lparr> blogUrl = or_default (env ''BLOG_URL'') ''http://localhost:3000'',
       apiUrl = or_default (env ''API_URL'') ''http://localhost:3000'',
       uploadUrl = or_default (env ''UPLOAD_URL'') ''http://localhost:3000'',
       cronUrl = or_default (env ''CRON_URL'') ''http://localhost:3000'' \<rparr>"

definition LCP :: rat where "LCP = 2500"
definition FID :: rat where "FID = 100"
definition CLS :: rat where "CLS = 1 / 10"
definition TTFB :: rat where "TTFB = 600"

section \<open>The capabilities the tests call (Playwright), as values\<close>

text \<open>
  What a \<^verbatim>\<open>catch (error)\<close> clause can receive. Playwright rejects a request or a
  navigation that ran out of time with a \<^verbatim>\<open>TimeoutError\<close> (an \<^verbatim>\<open>Error\<close>), here
  carrying the bound in milliseconds that was exceeded; any other \<^verbatim>\<open>Error\<close> carries
  its message; a thrown value that is no \<^verbatim>\<open>Error\<close> has none.
\<close>

datatype thrown = TimeoutError nat string | Error string | NonError

text \<open>\<^verbatim>\<open>error instanceof Error ? error.message : fallback\<close>\<close>

fun message_or :: "thrown \<Rightarrow> string \<Rightarrow> string" where
  "message_or (TimeoutError t m) d = m"
| "message_or (Error m) d = m"
| "message_or NonError d = d"

datatype response = Response (status_of: int)

text \<open>
  One iteration's dealings with the outside world: what \<^verbatim>\<open>request.get(url)\<close> settles
  to, what \<^verbatim>\<open>page.goto(url)\<close> settles to (a response, or \<^verbatim>\<open>null\<close>), and the
  difference of the two \<^verbatim>\<open>Date.now()\<close> readings around the call, in milliseconds.
\<close>

record net =
  get_result :: "thrown + response"
  goto_result :: "thrown + response option"
  elapsed :: nat

definition try_catch :: "(thrown + 'a) \<Rightarrow> (thrown \<Rightarrow> thrown + 'a) \<Rightarrow> thrown + 'a" where
  "try_catch body handler = (case body of Inl e \<Rightarrow> handler e | Inr v \<Rightarrow> Inr v)"

section \<open>Accessibility of the example applications (multi-app-integration.spec.ts)\<close>

record app =
  name :: string
  url :: string

record app_result = app +
  status :: int
  responseTime :: nat
  accessible :: bool
  error :: "string option"

definition appUrls :: "TestConfig \<Rightarrow> app list" where
  "appUrls apps =
     [ \<lparr> name = ''Blog'', url = blogUrl apps \<rparr>,
       \<lparr> name = ''Express API'', url = apiUrl apps \<rparr>,
       \<lparr> name = ''Image Upload'', url = uploadUrl apps \<rparr>,
       \<lparr> name = ''Cron Monitor'', url = cronUrl apps \<rparr> ]"

text \<open>
  The body of the \<^verbatim>\<open>try\<close> block, yielding the record it pushes onto \<^verbatim>\<open>results\<close>;
  it throws whatever \<^verbatim>\<open>request.get\<close> throws.
\<close>

definition probe_try :: "app \<Rightarrow> net \<Rightarrow> thrown + app_result" where
  "probe_try a n =
     (case get_result n of
        Inl e \<Rightarrow> Inl e
      | Inr response \<Rightarrow>
          Inr \<lparr> name = name a, url = url a,
                status = status_of response,
                responseTime = elapsed n,
                accessible = (status_of response \<ge> 200 \<and> status_of response < 400),
                error = None \<rparr>)"

text \<open>The \<^verbatim>\<open>catch\<close> block, yielding the record it pushes.\<close>

definition probe_catch :: "app \<Rightarrow> thrown \<Rightarrow> thrown + app_result" where
  "probe_catch a e =
     Inr \<lparr> name = name a, url = url a,
           status = 0,
           responseTime = 0,
           accessible = False,
           error = Some (message_or e ''Unknown error'') \<rparr>"

definition probe :: "app \<Rightarrow> net \<Rightarrow> thrown + app_result" where
  "probe a n = try_catch (probe_try a n) (probe_catch a)"


section \<open>Availability check of the global setup (global-setup.ts)\<close>




section \<open>System health check (multi-app-integration.spec.ts)\<close>

record endpoint = app +
  type :: string

text \<open>The counters of the health check: \<^verbatim>\<open>healthMetrics\<close> and the three locals.\<close>

record health =
  accessibleApps :: nat
  apiEndpoints :: nat
  totalTests :: nat
  failedTests :: nat
  totalTime :: nat


definition health_init :: health where
  "health_init = \<lparr> accessibleApps = 0, apiEndpoints = 0, totalTests = 0, failedTests = 0, totalTime = 0 \<rparr>"

definition health_try :: "endpoint \<Rightarrow> net \<Rightarrow> health \<Rightarrow> thrown + health" where
  "health_try ep n h =
     (if type ep = ''api'' then
        (case get_result n of
           Inl e \<Rightarrow> Inl e
         | Inr response \<Rightarrow>
             let h' = (if status_of response \<ge> 200 \<and> status_of response < 400
                       then h \<lparr> accessibleApps := accessibleApps h + 1,
                                apiEndpoints := (if type ep = ''api'' then apiEndpoints h + 1
                                                 else apiEndpoints h) \<rparr>
                       else h \<lparr> failedTests := failedTests h + 1 \<rparr>)
             in Inr (h' \<lparr> totalTime := totalTime h' + elapsed n \<rparr>))
      else
        (case goto_result n of
           Inl e \<Rightarrow> Inl e
         | Inr _ \<Rightarrow>
             Inr (h \<lparr> accessibleApps := accessibleApps h + 1,
                      totalTime := totalTime h + elapsed n \<rparr>)))"

definition health_catch :: "health \<Rightarrow> thrown \<Rightarrow> thrown + health" where
  "health_catch h e = Inr (h \<lparr> failedTests := failedTests h + 1 \<rparr>)"

text \<open>
  One iteration. Both branches of the \<^verbatim>\<open>try\<close> block throw, if at all, before they
  change a counter, so the \<^verbatim>\<open>catch\<close> block starts from the counters at the
  beginning of the \<^verbatim>\<open>try\<close>.
\<close>

definition checkEndpoint :: "endpoint \<Rightarrow> net \<Rightarrow> health \<Rightarrow> thrown + health" where
  "checkEndpoint ep n h =
     (let h1 = h \<lparr> totalTests := totalTests h + 1 \<rparr>
      in try_catch (health_try ep n h1) (health_catch h1))"


text \<open>
  The quotients are JavaScript numbers. Counters are exact integers; a quotient of two
  of them is taken here as the exact rational (the double of the source is that
  rational rounded), with the two results of a division by zero kept apart.
\<close>

datatype number = Num rat | NaN | Infinity

definition divide_counts :: "nat \<Rightarrow> nat \<Rightarrow> number" where
  "divide_counts a b =
     (if b = 0 then (if a = 0 then NaN else Infinity) else Num (of_nat a / of_nat b))"

fun times100 :: "number \<Rightarrow> number" where
  "times100 (Num r) = Num (r * 100)"
| "times100 NaN = NaN"
| "times100 Infinity = Infinity"

definition errorRate :: "health \<Rightarrow> number" where
  "errorRate h = times100 (divide_counts (failedTests h) (totalTests h))"

definition averageLoadTime :: "health \<Rightarrow> number" where
  "averageLoadTime h = divide_counts (totalTime h) (totalTests h)"


text \<open>
  Whether one iteration of the health check counts its endpoint among the accessible
  applications, read off the iteration itself, started from the zero counters.
\<close>

definition counted :: "endpoint \<times> net \<Rightarrow> bool" where
  "counted run =
     (case checkEndpoint (fst run) (snd run) health_init of
        Inl e \<Rightarrow> False
      | Inr h \<Rightarrow> accessibleApps h = 1)"

text \<open>
  What one iteration adds to each counter, read off the iteration started from the zero
  counters, and the sum of one counter's additions over a list of iterations.
\<close>

definition increments :: "endpoint \<times> net \<Rightarrow> health" where
  "increments run =
     (case checkEndpoint (fst run) (snd run) health_init of
        Inl e \<Rightarrow> health_init
      | Inr h \<Rightarrow> h)"

definition tally :: "(health \<Rightarrow> nat) \<Rightarrow> (endpoint \<times> net) list \<Rightarrow> nat" where
  "tally counter runs = sum_list (map (\<lambda>run. counter (increments run)) runs)"

section \<open>Render metrics (multi-app-integration.spec.ts)\<close>

text \<open>
  A layout-shift entry as the observers read it: its \<^verbatim>\<open>value\<close> (named \<open>shift_value\<close>
  here, the word being reserved) and its \<^verbatim>\<open>hadRecentInput\<close> flag. Paint times and
  shift scores are doubles in the source and exact rationals here; every sum below adds
  in the order in which the source adds.
\<close>

record layout_shift =
  shift_value :: rat
  hadRecentInput :: bool

text \<open>
  One invocation of a \<^verbatim>\<open>PerformanceObserver\<close> callback with the entries of
  \<^verbatim>\<open>list.getEntries()\<close>: the start times of largest-contentful-paint entries, or
  layout-shift entries.
\<close>

datatype observer_event = LcpEntries "rat list" | LayoutShifts "layout_shift list"

record vitals =
  lcp :: "rat option"
  fcp :: "rat option"
  cls :: "rat option"

text \<open>
  The local \<^verbatim>\<open>clsValue\<close>, together with the \<^verbatim>\<open>metrics\<close> object of the cross-application
  test, or with the promise of the blog test (\<open>None\<close> while it is pending).
\<close>

record shift_state =
  clsValue :: rat

record page_state = shift_state +
  metrics :: vitals

record promise_state = shift_state +
  settled :: "rat option"

text \<open>The loop \<^verbatim>\<open>for (const entry of list.getEntries())\<close> of both layout-shift observers.\<close>

fun accumulate :: "layout_shift list \<Rightarrow> rat \<Rightarrow> rat" where
  "accumulate [] c = c"
| "accumulate (entry # entries) c =
     accumulate entries (if \<not> hadRecentInput entry then c + shift_value entry else c)"

text \<open>The two observer callbacks of the cross-application performance test.\<close>

fun observe :: "observer_event \<Rightarrow> page_state \<Rightarrow> page_state" where
  "observe (LcpEntries entries) s =
     (if length entries > 0
      then s \<lparr> metrics := (metrics s) \<lparr> lcp := Some (last entries) \<rparr> \<rparr>
      else s)"
| "observe (LayoutShifts entries) s =
     (let c = accumulate entries (clsValue s)
      in s \<lparr> clsValue := c, metrics := (metrics s) \<lparr> cls := Some c \<rparr> \<rparr>)"

text \<open>
  The promise inside \<^verbatim>\<open>page.evaluate\<close> of the cross-application test: \<open>fcpEntry\<close> is
  the start time of the first-contentful-paint entry found, if any, and \<open>events\<close> are
  the callbacks that run before the timer of 3000 ms resolves with \<^verbatim>\<open>metrics\<close>.
\<close>

definition measureVitals :: "rat option \<Rightarrow> observer_event list \<Rightarrow> vitals" where
  "measureVitals fcpEntry events =
     metrics (fold observe events
       \<lparr> clsValue = 0, metrics = \<lparr> lcp = None, fcp = fcpEntry, cls = None \<rparr> \<rparr>)"

text \<open>Resolving a promise: only the first call has an effect.\<close>

definition resolve :: "rat \<Rightarrow> rat option \<Rightarrow> rat option" where
  "resolve v p = (case p of None \<Rightarrow> Some v | Some w \<Rightarrow> Some w)"

text \<open>
  The layout-shift observer of the blog test \<^verbatim>\<open>should measure Core Web Vitals\<close>: it
  adds up its entries and then calls \<^verbatim>\<open>resolve(clsValue)\<close>.
\<close>

definition cls_observe :: "layout_shift list \<Rightarrow> promise_state \<Rightarrow> promise_state" where
  "cls_observe entries s =
     (let c = accumulate entries (clsValue s)
      in s \<lparr> clsValue := c, settled := resolve c (settled s) \<rparr>)"

text \<open>
  The promise of that test: the callbacks that run within the 5000 ms, then the timer's
  \<^verbatim>\<open>resolve(clsValue)\<close>; the value is what the promise settles to.
\<close>

definition measureCLS :: "layout_shift list list \<Rightarrow> rat option" where
  "measureCLS batches =
     (let s = fold cls_observe batches \<lparr> clsValue = 0, settled = None \<rparr>
      in resolve (clsValue s) (settled s))"

text \<open>
  An element of \<^verbatim>\<open>performanceMetrics\<close>: \<^verbatim>\<open>{app, ...metrics}\<close> or \<^verbatim>\<open>{app, error}\<close>
  (the field \<^verbatim>\<open>error\<close> is \<open>perf_error\<close> here).
\<close>

record perf_entry = vitals +
  app :: string
  perf_error :: "string option"

text \<open>
  What the page does for one application: \<^verbatim>\<open>page.goto\<close>, \<^verbatim>\<open>page.waitForLoadState\<close>,
  and \<^verbatim>\<open>page.evaluate\<close>, which rejects or sees a paint entry and observer callbacks.
\<close>

record page_run =
  navigated :: "thrown + response option"
  load_state :: "thrown + unit"
  evaluated :: "thrown + rat option \<times> observer_event list"

text \<open>
  \<^verbatim>\<open>expect(received).toBeLessThan(expected)\<close> throws an \<^verbatim>\<open>Error\<close> unless
  \<^verbatim>\<open>received < expected\<close>; the text of its message is the test library's, a
  parameter \<open>describe\<close> here.
\<close>

definition expect_toBeLessThan :: "(rat \<Rightarrow> rat \<Rightarrow> string) \<Rightarrow> rat \<Rightarrow> rat \<Rightarrow> thrown + unit" where
  "expect_toBeLessThan describe received expected =
     (if received < expected then Inr () else Inl (Error (describe received expected)))"

text \<open>
  The two guarded expectations. \<^verbatim>\<open>metricsData.lcp && metricsData.lcp > 0\<close> holds for a
  value that is present, not zero and positive; \<^verbatim>\<open>metricsData.cls !== undefined\<close> for
  a value that is present.
\<close>

definition verify_thresholds :: "(rat \<Rightarrow> rat \<Rightarrow> string) \<Rightarrow> vitals \<Rightarrow> thrown + unit" where
  "verify_thresholds describe m =
     (case (case lcp m of
              None \<Rightarrow> Inr ()
            | Some v \<Rightarrow> if v \<noteq> 0 \<and> v > 0 then expect_toBeLessThan describe v LCP else Inr ()) of
        Inl e \<Rightarrow> Inl e
      | Inr _ \<Rightarrow>
          (case cls m of
             None \<Rightarrow> Inr ()
           | Some c \<Rightarrow> expect_toBeLessThan describe c CLS))"

text \<open>
  The \<^verbatim>\<open>try\<close> block for one application. The entry with the metrics is pushed before
  the expectations run, so a failing expectation leaves it in the list: the block
  yields what was thrown, if anything, and the list as it stands then.
\<close>

definition perf_try ::
  "(rat \<Rightarrow> rat \<Rightarrow> string) \<Rightarrow> string \<Rightarrow> page_run \<Rightarrow> perf_entry list \<Rightarrow> thrown option \<times> perf_entry list" where
  "perf_try describe a run performanceMetrics =
     (case navigated run of
        Inl e \<Rightarrow> (Some e, performanceMetrics)
      | Inr _ \<Rightarrow>
     (case load_state run of
        Inl e \<Rightarrow> (Some e, performanceMetrics)
      | Inr _ \<Rightarrow>
     (case evaluated run of
        Inl e \<Rightarrow> (Some e, performanceMetrics)
      | Inr (fcpEntry, events) \<Rightarrow>
          let m = measureVitals fcpEntry events;
              pushed = performanceMetrics @
                [\<lparr> lcp = lcp m, fcp = fcp m, cls = cls m, app = a, perf_error = None \<rparr>]
          in (case verify_thresholds describe m of
                Inl e \<Rightarrow> (Some e, pushed)
              | Inr _ \<Rightarrow> (None, pushed)))))"

definition perf_catch :: "string \<Rightarrow> thrown \<Rightarrow> perf_entry list \<Rightarrow> perf_entry list" where
  "perf_catch a e performanceMetrics =
     performanceMetrics @
       [\<lparr> lcp = None, fcp = None, cls = None, app = a,
          perf_error = Some (message_or e ''Performance test failed'') \<rparr>]"

definition measureApp ::
  "(rat \<Rightarrow> rat \<Rightarrow> string) \<Rightarrow> string \<Rightarrow> page_run \<Rightarrow> perf_entry list \<Rightarrow> perf_entry list" where
  "measureApp describe a run performanceMetrics =
     (case perf_try describe a run performanceMetrics of
        (None, pushed) \<Rightarrow> pushed
      | (Some e, pushed) \<Rightarrow> perf_catch a e pushed)"

fun measureApps ::
  "(rat \<Rightarrow> rat \<Rightarrow> string) \<Rightarrow> (string \<times> page_run) list \<Rightarrow> perf_entry list \<Rightarrow> perf_entry list" where
  "measureApps describe [] performanceMetrics = performanceMetrics"
| "measureApps describe ((a, run) # rest) performanceMetrics =
     measureApps describe rest (measureApp describe a run performanceMetrics)"

text \<open>The layout-shift callbacks among the events, and the scores that are added up.\<close>

fun shift_batches :: "observer_event list \<Rightarrow> layout_shift list list" where
  "shift_batches [] = []"
| "shift_batches (LayoutShifts entries # events) = entries # shift_batches events"
| "shift_batches (LcpEntries entries # events) = shift_batches events"

definition unexpected_shifts :: "layout_shift list \<Rightarrow> rat list" where
  "unexpected_shifts entries = map shift_value (filter (\<lambda>entry. \<not> hadRecentInput entry) entries)"

section \<open>Polling with a timeout (utils/test-helpers.ts)\<close>




section \<open>Sample behaviours of the network, the page and the clock\<close>


definition down :: net where
  "down = \<lparr> get_result = Inl (Error ''connect ECONNREFUSED''),
           goto_result = Inl (Error ''net::ERR_CONNECTION_REFUSED''), elapsed = 3 \<rparr>"

definition timed_out :: net where
  "timed_out = \<lparr> get_result = Inl (TimeoutError 30000 ''Timeout 30000ms exceeded''),
                 goto_result = Inl (TimeoutError 30000 ''Timeout 30000ms exceeded''),
                 elapsed = 30007 \<rparr>"




section \<open>Properties\<close>

lemma or_default_unset [simp]: "or_default None d = d"
  by (simp add: or_default_def)

text \<open>
  C9. With none of \<^verbatim>\<open>BLOG_URL\<close>, \<^verbatim>\<open>API_URL\<close>, \<^verbatim>\<open>UPLOAD_URL\<close>, \<^verbatim>\<open>CRON_URL\<close> set,
  \<^verbatim>\<open>DEFAULT_CONFIG\<close> gives all four applications the URL \<^verbatim>\<open>http://localhost:3000\<close>:
  the names of the four targets are distinct, their URLs are not.
\<close>

theorem default_config_single_endpoint:
  assumes "env ''BLOG_URL'' = None" and "env ''API_URL'' = None"
    and "env ''UPLOAD_URL'' = None" and "env ''CRON_URL'' = None"
  shows "blogUrl (DEFAULT_CONFIG env) = ''http://localhost:3000''
       \<and> apiUrl (DEFAULT_CONFIG env) = ''http://localhost:3000''
       \<and> uploadUrl (DEFAULT_CONFIG env) = ''http://localhost:3000''
       \<and> cronUrl (DEFAULT_CONFIG env) = ''http://localhost:3000''
       \<and> map url (appUrls (DEFAULT_CONFIG env)) = replicate 4 ''http://localhost:3000''
       \<and> distinct (map name (appUrls (DEFAULT_CONFIG env)))
       \<and> \<not> distinct (map url (appUrls (DEFAULT_CONFIG env)))"
  using assms by (simp add: DEFAULT_CONFIG_def appUrls_def numeral_eq_Suc)

theorem default_config_single_endpoint_witness:
  "map url (appUrls (DEFAULT_CONFIG Map.empty)) = replicate 4 ''http://localhost:3000''
   \<and> distinct (map name (appUrls (DEFAULT_CONFIG Map.empty)))
   \<and> \<not> distinct (map url (appUrls (DEFAULT_CONFIG Map.empty)))"
proof -
  have unset: "(Map.empty :: process_env) v = None" for v :: string
    by simp
  from default_config_single_endpoint [OF unset unset unset unset]
  show ?thesis by blast
qed

subsection \<open>The probe of one application\<close>


lemma probe_cases:
  "probe a n =
     (case get_result n of
        Inl e \<Rightarrow> Inr \<lparr> name = name a, url = url a, status = 0, responseTime = 0,
                        accessible = False, error = Some (message_or e ''Unknown error'') \<rparr>
      | Inr response \<Rightarrow> Inr \<lparr> name = name a, url = url a, status = status_of response,
                        responseTime = elapsed n,
                        accessible = (status_of response \<ge> 200 \<and> status_of response < 400),
                        error = None \<rparr>)"
  by (simp add: probe_def try_catch_def probe_try_def probe_catch_def split: sum.splits)


subsection \<open>One iteration of the health check, and the loop\<close>

lemma checkEndpoint_cases:
  "checkEndpoint ep n h =
    (if type ep = ''api'' then
       (case get_result n of
          Inl e \<Rightarrow> Inr (h \<lparr> totalTests := totalTests h + 1, failedTests := failedTests h + 1 \<rparr>)
        | Inr response \<Rightarrow>
            if status_of response \<ge> 200 \<and> status_of response < 400
            then Inr (h \<lparr> totalTests := totalTests h + 1, accessibleApps := accessibleApps h + 1,
                     apiEndpoints := apiEndpoints h + 1, totalTime := totalTime h + elapsed n \<rparr>)
            else Inr (h \<lparr> totalTests := totalTests h + 1, failedTests := failedTests h + 1,
                     totalTime := totalTime h + elapsed n \<rparr>))
     else
       (case goto_result n of
          Inl e \<Rightarrow> Inr (h \<lparr> totalTests := totalTests h + 1, failedTests := failedTests h + 1 \<rparr>)
        | Inr _ \<Rightarrow> Inr (h \<lparr> totalTests := totalTests h + 1, accessibleApps := accessibleApps h + 1,
                     totalTime := totalTime h + elapsed n \<rparr>)))"
  by (simp add: checkEndpoint_def try_catch_def health_try_def health_catch_def Let_def split: sum.splits)

lemma counted_iff:
  "counted (ep, n) =
     (if type ep = ''api''
      then (\<exists>resp. get_result n = Inr resp \<and> 200 \<le> status_of resp \<and> status_of resp < 400)
      else (\<exists>resp. goto_result n = Inr resp))"
  by (auto simp: counted_def checkEndpoint_cases health_init_def split: sum.splits)

lemma tally_simps [simp]:
  "tally counter [] = 0"
  "tally counter (run # runs) = counter (increments run) + tally counter runs"
  by (simp_all add: tally_def)









subsection \<open>Classification of a probe\<close>

text \<open>
  C1, as the code has it. In the accessibility check an application is marked
  accessible exactly when the recorded status is at least 200 and below 400, which is
  exactly when the request answered with such a status (a rejected request records
  status 0). In the health check an endpoint of type \<^verbatim>\<open>api\<close> is counted accessible
  exactly when its request answered with a status in that range; an endpoint of any
  other type is counted accessible exactly when \<^verbatim>\<open>page.goto\<close> did not throw, whatever
  status the navigation's response carries. An endpoint that is not counted accessible
  is counted failed.
\<close>

theorem success_classification:
  "(\<exists>r. probe a n = Inr r
       \<and> (accessible r \<longleftrightarrow> 200 \<le> status r \<and> status r < 400)
       \<and> (accessible r \<longleftrightarrow>
            (\<exists>resp. get_result n = Inr resp \<and> 200 \<le> status_of resp \<and> status_of resp < 400)))
   \<and> (\<exists>h'. checkEndpoint ep n h = Inr h'
       \<and> accessibleApps h' = accessibleApps h + (if counted (ep, n) then 1 else 0)
       \<and> failedTests h' = failedTests h + (if counted (ep, n) then 0 else 1)
       \<and> (counted (ep, n) \<longleftrightarrow>
            (if type ep = ''api''
             then (\<exists>resp. get_result n = Inr resp \<and> 200 \<le> status_of resp \<and> status_of resp < 400)
             else (\<exists>resp. goto_result n = Inr resp))))"
proof
  show "\<exists>r. probe a n = Inr r
       \<and> (accessible r \<longleftrightarrow> 200 \<le> status r \<and> status r < 400)
       \<and> (accessible r \<longleftrightarrow>
            (\<exists>resp. get_result n = Inr resp \<and> 200 \<le> status_of resp \<and> status_of resp < 400))"
    by (cases "get_result n") (simp_all add: probe_cases)
next
  have "\<exists>h'. checkEndpoint ep n h = Inr h'
       \<and> accessibleApps h' = accessibleApps h + (if counted (ep, n) then 1 else 0)
       \<and> failedTests h' = failedTests h + (if counted (ep, n) then 0 else 1)"
    by (auto simp: counted_def checkEndpoint_cases health_init_def split: sum.splits)
  then show "\<exists>h'. checkEndpoint ep n h = Inr h'
       \<and> accessibleApps h' = accessibleApps h + (if counted (ep, n) then 1 else 0)
       \<and> failedTests h' = failedTests h + (if counted (ep, n) then 0 else 1)
       \<and> (counted (ep, n) \<longleftrightarrow>
            (if type ep = ''api''
             then (\<exists>resp. get_result n = Inr resp \<and> 200 \<le> status_of resp \<and> status_of resp < 400)
             else (\<exists>resp. goto_result n = Inr resp)))"
    using counted_iff [of ep n] by blast
qed

text \<open>
  C1 as stated fails on the web branch of the health check: a navigation answered with
  status 500 does not throw, and the endpoint is counted accessible (no failed test),
  although 500 is outside the range from 200 to 399.
\<close>

theorem web_endpoint_status_500_counted:
  "checkEndpoint \<lparr> name = ''API Root'', url = ''http://localhost:3000/api/'', type = ''web'' \<rparr>
     \<lparr> get_result = Inr (Response 500), goto_result = Inr (Some (Response 500)), elapsed = 40 \<rparr>
     health_init
   = Inr \<lparr> accessibleApps = 1, apiEndpoints = 0, totalTests = 1, failedTests = 0, totalTime = 40 \<rparr>
   \<and> \<not> (200 \<le> status_of (Response 500) \<and> status_of (Response 500) < 400)"
  by (simp add: checkEndpoint_cases health_init_def)

subsection \<open>The health score\<close>




subsection \<open>Failures are recorded, not thrown\<close>



text \<open>
  C4, as the code has it. An application whose request was rejected, or answered with a
  status outside the range from 200 to 399, is recorded as not accessible, whatever the
  measured response time; the record carries an error text exactly when the request
  was rejected.
\<close>

theorem failed_target_recorded:
  "\<not> (\<exists>resp. get_result n = Inr resp \<and> 200 \<le> status_of resp \<and> status_of resp < 400) \<Longrightarrow>
     \<exists>r. probe a n = Inr r \<and> \<not> accessible r
        \<and> (error r \<noteq> None \<longleftrightarrow> (\<exists>e. get_result n = Inl e))"
  by (cases "get_result n") (simp_all add: probe_cases)

theorem failed_target_recorded_witness:
  "\<exists>r. probe \<lparr> name = ''Blog'', url = ''http://localhost:3000'' \<rparr> down = Inr r
       \<and> \<not> accessible r \<and> error r \<noteq> None"
  using failed_target_recorded [of down "\<lparr> name = ''Blog'', url = ''http://localhost:3000'' \<rparr>"]
  by (simp add: down_def)

text \<open>
  C4 as stated fails for an answer with an error status: the application is recorded as
  not accessible, and no reason is recorded with it.
\<close>

theorem http_error_has_no_reason:
  "probe \<lparr> name = ''Blog'', url = ''http://localhost:3000'' \<rparr>
     \<lparr> get_result = Inr (Response 500), goto_result = Inr (Some (Response 500)), elapsed = 40 \<rparr>
   = Inr \<lparr> name = ''Blog'', url = ''http://localhost:3000'', status = 500, responseTime = 40,
           accessible = False, error = None \<rparr>"
  by (simp add: probe_cases)

text \<open>
  C5, as the code has it. A request that is rejected, by running out of time or
  otherwise, is recorded with status 0, response time 0 and not accessible; the bound
  that was exceeded appears at most in the recorded error text.
\<close>

theorem rejected_probe_record:
  "get_result n = Inl e \<Longrightarrow>
     probe a n = Inr \<lparr> name = name a, url = url a, status = 0, responseTime = 0,
                      accessible = False, error = Some (message_or e ''Unknown error'') \<rparr>"
  by (simp add: probe_cases)

theorem rejected_probe_record_witness:
  "probe \<lparr> name = ''Express API'', url = ''http://localhost:3000'' \<rparr> timed_out
     = Inr \<lparr> name = ''Express API'', url = ''http://localhost:3000'', status = 0, responseTime = 0,
             accessible = False, error = Some ''Timeout 30000ms exceeded'' \<rparr>"
  using rejected_probe_record [of timed_out "TimeoutError 30000 ''Timeout 30000ms exceeded''"
      "\<lparr> name = ''Express API'', url = ''http://localhost:3000'' \<rparr>"]
  by (simp add: timed_out_def)

text \<open>
  C5 as stated fails: a request that exceeded its bound of 30000 ms is recorded with
  response time 0, not 30000.
\<close>

theorem timeout_latency_is_zero:
  "probe \<lparr> name = ''Blog'', url = ''http://localhost:3000'' \<rparr> timed_out
     = Inr \<lparr> name = ''Blog'', url = ''http://localhost:3000'', status = 0, responseTime = 0,
             accessible = False, error = Some ''Timeout 30000ms exceeded'' \<rparr>
   \<and> get_result timed_out = Inl (TimeoutError 30000 ''Timeout 30000ms exceeded'')
   \<and> (0::nat) \<noteq> 30000"
  by (simp add: probe_cases timed_out_def)

subsection \<open>Cumulative layout shift\<close>

lemma accumulate_sum: "accumulate entries c = c + sum_list (unexpected_shifts entries)"
  by (induction entries arbitrary: c) (simp_all add: unexpected_shifts_def)

lemma unexpected_shifts_Nil [simp]: "unexpected_shifts [] = []"
  by (simp add: unexpected_shifts_def)

lemma unexpected_shifts_append [simp]:
  "unexpected_shifts (xs @ ys) = unexpected_shifts xs @ unexpected_shifts ys"
  by (simp add: unexpected_shifts_def)

lemma fold_observe_cls:
  "clsValue (fold observe events s) = clsValue s + sum_list (unexpected_shifts (concat (shift_batches events)))
   \<and> cls (metrics (fold observe events s)) =
       (if shift_batches events = [] then cls (metrics s)
        else Some (clsValue s + sum_list (unexpected_shifts (concat (shift_batches events)))))"
proof (induction events arbitrary: s)
  case Nil
  then show ?case by simp
next
  case (Cons ev events)
  show ?case
  proof (cases ev)
    case (LcpEntries entries)
    with Cons.IH [of "observe ev s"] show ?thesis by simp
  next
    case (LayoutShifts entries)
    let ?s' = "observe ev s"
    have s': "clsValue ?s' = clsValue s + sum_list (unexpected_shifts entries)"
      "cls (metrics ?s') = Some (clsValue s + sum_list (unexpected_shifts entries))"
      using LayoutShifts by (simp_all add: Let_def accumulate_sum)
    from Cons.IH [of ?s'] s' LayoutShifts show ?thesis
      by (simp add: add.assoc)
  qed
qed

lemma cross_app_cls_running_sum:
  "cls (measureVitals fcpEntry events) =
     (if shift_batches events = [] then None
      else Some (sum_list (unexpected_shifts (concat (shift_batches events)))))"
  using fold_observe_cls [of events "\<lparr> clsValue = 0, metrics = \<lparr> lcp = None, fcp = fcpEntry, cls = None \<rparr> \<rparr>"]
  by (simp add: measureVitals_def)

lemma fold_cls_observe_settled:
  "settled s = Some v \<Longrightarrow> settled (fold cls_observe batches s) = Some v"
  by (induction batches arbitrary: s) (simp_all add: cls_observe_def resolve_def Let_def)

lemma measureCLS_first_batch:
  "measureCLS batches =
     (case batches of
        [] \<Rightarrow> Some 0
      | entries # later \<Rightarrow> Some (sum_list (unexpected_shifts entries)))"
proof (cases batches)
  case Nil
  then show ?thesis by (simp add: measureCLS_def resolve_def)
next
  case (Cons entries later)
  let ?s = "cls_observe entries \<lparr> clsValue = 0, settled = None \<rparr>"
  have "settled ?s = Some (sum_list (unexpected_shifts entries))"
    by (simp add: cls_observe_def resolve_def Let_def accumulate_sum)
  then have "settled (fold cls_observe later ?s) = Some (sum_list (unexpected_shifts entries))"
    by (rule fold_cls_observe_settled)
  with Cons show ?thesis by (simp add: measureCLS_def resolve_def Let_def)
qed

text \<open>
  C6, at the blog test. The observer resolves the promise at the end of its first
  callback, so the measured value is the sum of the first batch of entries only: with
  one shift of 0.05 in the first callback and one of 0.2 in a second callback, both
  without recent input and both within the 5000 ms, the value is 0.05, while the sum
  over all reported entries is 0.25.
\<close>

theorem cls_stops_at_first_batch:
  "measureCLS [[\<lparr> shift_value = 1 / 20, hadRecentInput = False \<rparr>],
               [\<lparr> shift_value = 1 / 5, hadRecentInput = False \<rparr>]] = Some (1 / 20)
   \<and> sum_list (unexpected_shifts (concat
         [[\<lparr> shift_value = 1 / 20, hadRecentInput = False \<rparr>],
          [\<lparr> shift_value = 1 / 5, hadRecentInput = False \<rparr>]])) = 1 / 4"
  by (simp add: measureCLS_first_batch unexpected_shifts_def)

subsection \<open>The LCP ceiling\<close>



subsection \<open>Polling with a timeout\<close>








end
